theory Spec2Isabelle
  imports Complex_Main
begin

section \<open>JavaScript values\<close>

text \<open>
  The values that flow through \<^verbatim>\<open>src/lib/paths/path.js\<close>: JSON data (declared examples,
  request facets) plus \<^verbatim>\<open>undefined\<close> and the functions a property read can inherit from
  \<^verbatim>\<open>Object.prototype\<close>. An object is the list of its own enumerable properties, in the
  order \<^verbatim>\<open>Object.entries\<close> enumerates them. Number literals are integers below \<^verbatim>\<open>1e21\<close>
  in absolute value, which print in plain decimal; strings are ASCII.
\<close>

datatype jsval =
    JUndefined
  | JNull
  | JBool bool
  | JNum int
  | JStr string
  | JArr "jsval list"
  | JObj "(string \<times> jsval) list"
  | JFunction string

text \<open>The result of a numeric coercion: exact values, \<^verbatim>\<open>NaN\<close> and the two infinities.\<close>

datatype jsnum = NaN | PosInf | NegInf | Fin rat

text \<open>
  The exceptions the code can raise, with their \<^verbatim>\<open>message\<close>. A \<^verbatim>\<open>SyntaxError\<close> of
  \<^verbatim>\<open>JSON.parse\<close> carries the text that did not parse.
\<close>

datatype error = Error string | TypeError string | SyntaxError string

subsection \<open>Decimal digits\<close>

definition digit_char :: "int \<Rightarrow> char" where
  "digit_char d = char_of (48 + d)"

text \<open>The decimal text of a non-negative integer.\<close>

function decimal :: "int \<Rightarrow> string" where
  "decimal n = (if n < 10 then [digit_char n] else decimal (n div 10) @ [digit_char (n mod 10)])"
  by pat_completeness auto
termination
  by (relation "measure nat") auto

declare decimal.simps [simp del]

definition string_of_int :: "int \<Rightarrow> string" where
  "string_of_int i = (if i < 0 then CHR ''-'' # decimal (- i) else decimal i)"

definition string_of_nat :: "nat \<Rightarrow> string" where
  "string_of_nat n = decimal (int n)"

definition is_digit :: "char \<Rightarrow> bool" where
  "is_digit c = (48 \<le> (of_char c :: int) \<and> (of_char c :: int) \<le> 57)"

definition hex_val :: "char \<Rightarrow> int option" where
  "hex_val c = (let k = (of_char c :: int) in
     if 48 \<le> k \<and> k \<le> 57 then Some (k - 48)
     else if 97 \<le> k \<and> k \<le> 102 then Some (k - 87)
     else if 65 \<le> k \<and> k \<le> 70 then Some (k - 55)
     else None)"

definition is_digit_in :: "int \<Rightarrow> char \<Rightarrow> bool" where
  "is_digit_in base c = (case hex_val c of None \<Rightarrow> False | Some d \<Rightarrow> d < base)"

definition int_of_digits :: "int \<Rightarrow> string \<Rightarrow> int" where
  "int_of_digits base s = foldl (\<lambda>a c. a * base + (case hex_val c of None \<Rightarrow> 0 | Some d \<Rightarrow> d)) 0 s"

subsection \<open>\<^verbatim>\<open>String.prototype.toLowerCase\<close> on ASCII\<close>

definition lower_char :: "char \<Rightarrow> char" where
  "lower_char c = (let k = (of_char c :: nat) in if 65 \<le> k \<and> k \<le> 90 then char_of (k + 32) else c)"

definition toLowerCase :: "string \<Rightarrow> string" where
  "toLowerCase s = map lower_char s"

subsection \<open>Conversions to string\<close>

text \<open>
  \<^verbatim>\<open>join\<close> with a comma, as \<^verbatim>\<open>Array.prototype.toString\<close> does.
\<close>

fun join_comma :: "string list \<Rightarrow> string" where
  "join_comma [] = []"
| "join_comma [x] = x"
| "join_comma (x # y # ys) = x @ '','' @ join_comma (y # ys)"

text \<open>
  \<^verbatim>\<open>ToString\<close>: inside an array \<^verbatim>\<open>null\<close> and \<^verbatim>\<open>undefined\<close> print as the empty string,
  every plain object prints as \<^verbatim>\<open>[object Object]\<close>.
\<close>

fun ToString :: "jsval \<Rightarrow> string" where
  "ToString JUndefined = ''undefined''"
| "ToString JNull = ''null''"
| "ToString (JBool b) = (if b then ''true'' else ''false'')"
| "ToString (JNum n) = string_of_int n"
| "ToString (JStr s) = s"
| "ToString (JArr xs) =
     join_comma (map (\<lambda>x. if x = JUndefined \<or> x = JNull then [] else ToString x) xs)"
| "ToString (JObj kvs) = ''[object Object]''"
| "ToString (JFunction f) = ''function '' @ f @ ''() { [native code] }''"

subsection \<open>\<^verbatim>\<open>Object.entries\<close>\<close>

definition index_entries :: "jsval list \<Rightarrow> (string \<times> jsval) list" where
  "index_entries xs = zip (map string_of_nat [0 ..< length xs]) xs"

fun Object_entries :: "jsval \<Rightarrow> error + (string \<times> jsval) list" where
  "Object_entries JUndefined = Inl (TypeError ''Cannot convert undefined or null to object'')"
| "Object_entries JNull = Inl (TypeError ''Cannot convert undefined or null to object'')"
| "Object_entries (JBool b) = Inr []"
| "Object_entries (JNum n) = Inr []"
| "Object_entries (JStr s) = Inr (index_entries (map (\<lambda>c. JStr [c]) s))"
| "Object_entries (JArr xs) = Inr (index_entries xs)"
| "Object_entries (JObj kvs) = Inr kvs"
| "Object_entries (JFunction f) = Inr []"

text \<open>\<^verbatim>\<open>Object.entries(v).toString()\<close>: the entries are two-element arrays.\<close>

definition entries_toString :: "jsval \<Rightarrow> error + string" where
  "entries_toString v =
     (case Object_entries v of
        Inl e \<Rightarrow> Inl e
      | Inr es \<Rightarrow> Inr (ToString (JArr (map (\<lambda>(k, x). JArr [JStr k, x]) es))))"

subsection \<open>Truthiness and \<^verbatim>\<open>typeof\<close>\<close>

fun truthy :: "jsval \<Rightarrow> bool" where
  "truthy JUndefined = False"
| "truthy JNull = False"
| "truthy (JBool b) = b"
| "truthy (JNum n) = (n \<noteq> 0)"
| "truthy (JStr s) = (s \<noteq> [])"
| "truthy (JArr xs) = True"
| "truthy (JObj kvs) = True"
| "truthy (JFunction f) = True"

fun typeof :: "jsval \<Rightarrow> string" where
  "typeof JUndefined = ''undefined''"
| "typeof JNull = ''object''"
| "typeof (JBool b) = ''boolean''"
| "typeof (JNum n) = ''number''"
| "typeof (JStr s) = ''string''"
| "typeof (JArr xs) = ''object''"
| "typeof (JObj kvs) = ''object''"
| "typeof (JFunction f) = ''function''"

fun isArray :: "jsval \<Rightarrow> bool" where
  "isArray (JArr xs) = True"
| "isArray v = False"

text \<open>
  Strict equality \<^verbatim>\<open>===\<close> between a value that was decoded from the request and a value
  of the declaration (or a literal): primitives are compared by value, arrays, objects
  and functions by identity, and the two never share an identity.
\<close>

definition strict_eq :: "jsval \<Rightarrow> jsval \<Rightarrow> bool" where
  "strict_eq a b =
     (case a of
        JArr xs \<Rightarrow> False
      | JObj kvs \<Rightarrow> False
      | JFunction f \<Rightarrow> False
      | _ \<Rightarrow> a = b)"

subsection \<open>Numeric coercion\<close>

text \<open>
  \<^verbatim>\<open>Number(s)\<close> on a string, after the grammar of \<^verbatim>\<open>StringNumericLiteral\<close>: white space
  is trimmed, the empty string is zero, then a hexadecimal, octal or binary integer
  without sign, or a signed decimal literal with optional fraction and exponent, or
  a signed \<^verbatim>\<open>Infinity\<close>. Values are exact (no rounding to a double).
\<close>

definition is_ws :: "char \<Rightarrow> bool" where
  "is_ws c = ((of_char c :: nat) \<in> {9, 10, 11, 12, 13, 32})"

definition trim :: "string \<Rightarrow> string" where
  "trim s = rev (dropWhile is_ws (rev (dropWhile is_ws s)))"

definition pow10 :: "int \<Rightarrow> rat" where
  "pow10 e = (if 0 \<le> e then 10 ^ nat e else 1 / 10 ^ nat (- e))"

definition parse_exponent :: "string \<Rightarrow> int option" where
  "parse_exponent s =
     (case s of
        [] \<Rightarrow> Some 0
      | c # t \<Rightarrow>
          if c = CHR ''e'' \<or> c = CHR ''E'' then
            (let (neg, ds) =
               (case t of
                  [] \<Rightarrow> (False, [])
                | d # u \<Rightarrow> if d = CHR ''-'' then (True, u) else if d = CHR ''+'' then (False, u) else (False, t))
             in if ds \<noteq> [] \<and> list_all is_digit ds
                then Some ((if neg then - 1 else 1) * int_of_digits 10 ds)
                else None)
          else None)"

definition parse_unsigned_decimal :: "string \<Rightarrow> jsnum" where
  "parse_unsigned_decimal s =
     (if s = ''Infinity'' then PosInf
      else
        let ip = takeWhile is_digit s;
            r1 = dropWhile is_digit s;
            (fp, r2) = (case r1 of
                          [] \<Rightarrow> ([], [])
                        | c # t \<Rightarrow> if c = CHR ''.'' then (takeWhile is_digit t, dropWhile is_digit t)
                                   else ([], r1))
        in if ip = [] \<and> fp = [] then NaN
           else (case parse_exponent r2 of
                   None \<Rightarrow> NaN
                 | Some e \<Rightarrow>
                     Fin ((of_int (int_of_digits 10 ip)
                           + of_int (int_of_digits 10 fp) / 10 ^ length fp) * pow10 e)))"

definition negate :: "jsnum \<Rightarrow> jsnum" where
  "negate x = (case x of NaN \<Rightarrow> NaN | PosInf \<Rightarrow> NegInf | NegInf \<Rightarrow> PosInf | Fin q \<Rightarrow> Fin (- q))"

definition parse_radix :: "int \<Rightarrow> string \<Rightarrow> jsnum" where
  "parse_radix base ds =
     (if ds \<noteq> [] \<and> list_all (is_digit_in base) ds then Fin (of_int (int_of_digits base ds)) else NaN)"

definition StringToNumber :: "string \<Rightarrow> jsnum" where
  "StringToNumber s =
     (let t = trim s in
      case t of
        [] \<Rightarrow> Fin 0
      | c # u \<Rightarrow>
          if c = CHR ''0'' \<and> u \<noteq> [] \<and> hd u \<in> set ''xX'' then parse_radix 16 (tl u)
          else if c = CHR ''0'' \<and> u \<noteq> [] \<and> hd u \<in> set ''oO'' then parse_radix 8 (tl u)
          else if c = CHR ''0'' \<and> u \<noteq> [] \<and> hd u \<in> set ''bB'' then parse_radix 2 (tl u)
          else if c = CHR ''-'' then negate (parse_unsigned_decimal u)
          else if c = CHR ''+'' then parse_unsigned_decimal u
          else parse_unsigned_decimal t)"

text \<open>\<^verbatim>\<open>Number(value)\<close>; an array or object is first converted to a string.\<close>

fun Number :: "jsval \<Rightarrow> jsnum" where
  "Number JUndefined = NaN"
| "Number JNull = Fin 0"
| "Number (JBool b) = Fin (if b then 1 else 0)"
| "Number (JNum n) = Fin (of_int n)"
| "Number v = StringToNumber (ToString v)"

definition isNaN :: "jsnum \<Rightarrow> bool" where
  "isNaN x = (x = NaN)"

text \<open>
  \<^verbatim>\<open>parseInt(x, 10)\<close> of a number \<^verbatim>\<open>x\<close>: the number is printed and the leading integer of
  the text is read back. Between \<^verbatim>\<open>1e-6\<close> and \<^verbatim>\<open>1e21\<close> the text is plain decimal, so the
  result is the value truncated towards zero; outside it the text is in exponent
  notation and only the first significant digit is read; \<^verbatim>\<open>Infinity\<close> has no digits.
\<close>

definition leading_digit :: "rat \<Rightarrow> int" where
  "leading_digit q =
     (let (p, d) = quotient_of \<bar>q\<bar>;
          n = p * 10 ^ length (decimal d) div d
      in int_of_digits 10 [hd (decimal n)])"

definition parseInt_of_Number :: "jsnum \<Rightarrow> jsnum" where
  "parseInt_of_Number x =
     (case x of
        NaN \<Rightarrow> NaN
      | PosInf \<Rightarrow> NaN
      | NegInf \<Rightarrow> NaN
      | Fin q \<Rightarrow>
          if q = 0 then Fin 0
          else if \<bar>q\<bar> < 1 / 10 ^ 6 \<or> 10 ^ 21 \<le> \<bar>q\<bar>
          then Fin (of_int (sgn (if q < 0 then - 1 else 1) * leading_digit q))
          else Fin (of_int (if q < 0 then - \<lfloor>- q\<rfloor> else \<lfloor>q\<rfloor>)))"

section \<open>The type checker\<close>

text \<open>
  \<^verbatim>\<open>isValidType(type, value)\<close> returns \<^verbatim>\<open>true\<close> when the value is invalid, and throws
  for a type it does not know.
\<close>

definition isValidType :: "string \<Rightarrow> jsval \<Rightarrow> error + bool" where
  "isValidType type v =
     (if type = ''array'' then Inr (\<not> isArray v)
      else if type = ''object'' then Inr (typeof v \<noteq> ''object'' \<or> isArray v)
      else if type = ''string'' then Inr (typeof v \<noteq> ''string'')
      else if type = ''number'' then Inr (isNaN (Number v))
      else if type = ''integer'' then
        Inr (isNaN (Number v) \<or> parseInt_of_Number (Number v) \<noteq> Number v)
      else if type = ''boolean'' then
        Inr (\<not> strict_eq v (JBool (truthy v)) \<and> \<not> strict_eq v (JStr ''true'')
             \<and> \<not> strict_eq v (JStr ''false''))
      else Inl (Error (''Invalid type declaration '' @ type)))"

section \<open>The operation\<close>

text \<open>
  \<^verbatim>\<open>obj[key]\<close> on a plain object: an own property, else what \<^verbatim>\<open>Object.prototype\<close>
  provides, else \<^verbatim>\<open>undefined\<close>. The prototype's \<^verbatim>\<open>__proto__\<close> reads as the prototype
  itself, an object without enumerable properties.
\<close>

definition Object_prototype_functions :: "string list" where
  "Object_prototype_functions =
     [''constructor'', ''__defineGetter__'', ''__defineSetter__'', ''hasOwnProperty'',
      ''__lookupGetter__'', ''__lookupSetter__'', ''isPrototypeOf'', ''propertyIsEnumerable'',
      ''toString'', ''valueOf'', ''toLocaleString'']"

definition js_get :: "(string \<times> jsval) list \<Rightarrow> string \<Rightarrow> jsval" where
  "js_get obj k =
     (case map_of obj k of
        Some v \<Rightarrow> v
      | None \<Rightarrow>
          if k \<in> set Object_prototype_functions then JFunction k
          else if k = ''__proto__'' then JObj []
          else JUndefined)"

text \<open>
  \<^verbatim>\<open>obj[key] = v\<close> on a plain object, keeping the enumeration order: an existing
  property keeps its place; a new key that is an array index (the canonical decimal
  text of a number below \<^verbatim>\<open>2^32 - 1\<close>) goes among the index keys in numeric order, which
  come first; any other new key goes last. Assigning to \<^verbatim>\<open>__proto__\<close> creates no
  property.
\<close>

definition is_array_index :: "string \<Rightarrow> bool" where
  "is_array_index k =
     (k \<noteq> [] \<and> list_all is_digit k \<and> decimal (int_of_digits 10 k) = k
      \<and> int_of_digits 10 k < 4294967295)"

fun insert_index :: "string \<Rightarrow> 'a \<Rightarrow> (string \<times> 'a) list \<Rightarrow> (string \<times> 'a) list" where
  "insert_index k v [] = [(k, v)]"
| "insert_index k v ((k', v') # rest) =
     (if is_array_index k' \<and> int_of_digits 10 k' < int_of_digits 10 k
      then (k', v') # insert_index k v rest
      else (k, v) # (k', v') # rest)"

definition obj_set :: "(string \<times> 'a) list \<Rightarrow> string \<Rightarrow> 'a \<Rightarrow> (string \<times> 'a) list" where
  "obj_set obj k v =
     (if k = ''__proto__'' then obj
      else if k \<in> fst ` set obj then map (\<lambda>(k', v'). if k' = k then (k', v) else (k', v')) obj
      else if is_array_index k then insert_index k v obj
      else obj @ [(k, v)])"

record schema =
  stype :: "string option"
  enum :: "jsval list option"

record parameter =
  paramIn :: string
  name :: string
  required :: bool
  deprecated :: bool
  schema :: "schema option"
  examples :: "(string \<times> jsval) list option"

text \<open>
  An entry of a \<^verbatim>\<open>content\<close> map: its \<^verbatim>\<open>schema\<close> property (\<^verbatim>\<open>JUndefined\<close> when there
  is none) and its \<^verbatim>\<open>examples\<close>, which map an example name to the example's \<^verbatim>\<open>value\<close>
  (\<^verbatim>\<open>JUndefined\<close> when the example has none).
\<close>

record content_entry =
  c_schema :: jsval
  c_examples :: "(string \<times> jsval) list option"

record request_body =
  rb_required :: bool
  rb_content :: "(string \<times> content_entry) list option"

record response =
  r_headers :: "(string \<times> jsval) list option"
  r_content :: "(string \<times> content_entry) list option"

record path =
  uri :: string
  httpMethod :: string
  parameters :: "parameter list"
  requestBody :: "request_body option"
  responses :: "(string \<times> response) list"

text \<open>
  The collaborators that are not part of the operation model: the marker
  \<^verbatim>\<open>CONSTANTS.FIRST_RESPONSE\<close>, \<^verbatim>\<open>util.inspect\<close> (called with one argument, and as the
  callback of \<^verbatim>\<open>map\<close> with value, index and array), the schema validator, the response
  generator, the path parser's \<^verbatim>\<open>test\<close> (\<^verbatim>\<open>None\<close> is \<^verbatim>\<open>null\<close>), \<^verbatim>\<open>object-hash\<close> (which may
  throw), \<^verbatim>\<open>JSON.parse\<close> (\<^verbatim>\<open>None\<close> where it throws a \<^verbatim>\<open>SyntaxError\<close>) and the text of
  that error's message.
\<close>

record externals =
  FIRST_RESPONSE :: string
  inspect :: "jsval \<Rightarrow> string"
  inspect_item :: "jsval \<Rightarrow> nat \<Rightarrow> jsval list \<Rightarrow> string"
  SchemaValidator_validate :: "jsval \<Rightarrow> jsval \<Rightarrow> error + (string \<times> string) list"
  ResponseGenerator_generate :: "jsval \<Rightarrow> jsval \<Rightarrow> jsval"
  PathParser_test :: "string \<Rightarrow> string \<Rightarrow> (string \<times> jsval) list option"
  hash :: "jsval \<Rightarrow> error + string"
  JSON_parse :: "string \<Rightarrow> jsval option"
  syntax_error_message :: "string \<Rightarrow> string"

datatype log = Warn string | Debug string | DebugStack error

record request =
  headers :: "(string \<times> jsval) list"
  query :: "(string \<times> jsval) list"
  path_params :: "(string \<times> jsval) list"
  cookies :: "(string \<times> jsval) list"
  body :: jsval

definition message :: "externals \<Rightarrow> error \<Rightarrow> string" where
  "message E e = (case e of Error m \<Rightarrow> m | TypeError m \<Rightarrow> m | SyntaxError t \<Rightarrow> syntax_error_message E t)"

section \<open>Parameter validation\<close>

definition isValidEnumValue :: "jsval list option \<Rightarrow> jsval \<Rightarrow> bool" where
  "isValidEnumValue possibleValues v =
     (case possibleValues of
        None \<Rightarrow> True
      | Some vs \<Rightarrow> vs = [] \<or> list_ex (strict_eq v) vs)"

fun join_comma_space :: "string list \<Rightarrow> string" where
  "join_comma_space [] = []"
| "join_comma_space [x] = x"
| "join_comma_space (x # y # ys) = x @ '', '' @ join_comma_space (y # ys)"

definition validateParameterEnum ::
  "externals \<Rightarrow> string \<Rightarrow> string \<Rightarrow> schema \<Rightarrow> jsval \<Rightarrow> string option" where
  "validateParameterEnum E pin nm sch v =
     (if \<not> isValidEnumValue (enum sch) v then
        Some (''Invalid '' @ pin @ '' param '' @ nm @ ''. Expected enum of [''
              @ join_comma_space
                  (case enum sch of
                     None \<Rightarrow> []
                   | Some vs \<Rightarrow> map (\<lambda>(i, x). inspect_item E x i vs) (zip [0 ..< length vs] vs))
              @ ''] but received '' @ inspect E v)
      else None)"

definition validateParameterType ::
  "externals \<Rightarrow> string \<Rightarrow> string \<Rightarrow> string \<Rightarrow> jsval \<Rightarrow> string option" where
  "validateParameterType E pin nm ty v =
     (case isValidType ty v of
        Inr err \<Rightarrow>
          if err then
            Some (''Invalid '' @ pin @ '' param '' @ nm @ ''. Expected value of type '' @ ty
                  @ '' but received '' @ inspect E v)
          else None
      | Inl e \<Rightarrow>
          Some (message E e @ '' for '' @ pin @ '' param '' @ nm))"

definition validateParameterSchema ::
  "externals \<Rightarrow> parameter \<Rightarrow> jsval \<Rightarrow> string option \<times> log list" where
  "validateParameterSchema E p v =
     (case schema p of
        None \<Rightarrow> (None, [Warn (''Missing schema for '' @ paramIn p @ '' param '' @ name p)])
      | Some sch \<Rightarrow>
          (case stype sch of
             None \<Rightarrow> (None, [Warn (''Missing schema type for '' @ paramIn p @ '' param '' @ name p)])
           | Some ty \<Rightarrow>
               if ty = [] then
                 (None, [Warn (''Missing schema type for '' @ paramIn p @ '' param '' @ name p)])
               else
                 (case validateParameterType E (paramIn p) (name p) ty v of
                    Some m \<Rightarrow> if m \<noteq> [] then (Some m, [])
                              else (validateParameterEnum E (paramIn p) (name p) sch v, [])
                  | None \<Rightarrow> (validateParameterEnum E (paramIn p) (name p) sch v, []))))"

definition validateParameter' ::
  "externals \<Rightarrow> parameter \<Rightarrow> (string \<times> jsval) list \<Rightarrow> string option \<times> log list" where
  "validateParameter' E p requestParameters =
     (if required p \<and> js_get requestParameters (name p) = JUndefined then
        (Some (''Missing required '' @ paramIn p @ '' param '' @ name p), [])
      else if js_get requestParameters (name p) = JUndefined then (None, [])
      else
        (let warn = (if deprecated p
                     then [Warn (''Using deprecated '' @ paramIn p @ '' param '' @ name p)] else []);
             (res, ws) = validateParameterSchema E p (js_get requestParameters (name p))
         in (res, warn @ ws)))"

definition validateParameter ::
  "externals \<Rightarrow> parameter \<Rightarrow> request \<Rightarrow> string option \<times> log list" where
  "validateParameter E p req =
     (if paramIn p = ''header'' then
        validateParameter' E (p\<lparr>name := toLowerCase (name p)\<rparr>) (headers req)
      else if paramIn p = ''query'' then validateParameter' E p (query req)
      else if paramIn p = ''path'' then validateParameter' E p (path_params req)
      else if paramIn p = ''cookie'' then validateParameter' E p (cookies req)
      else (Some (''Invalid declaration for '' @ paramIn p @ '' param '' @ name p), []))"

section \<open>Body validation\<close>







section \<open>Request validation\<close>



section \<open>Response resolution\<close>

text \<open>
  A status code is a number after \<^verbatim>\<open>Number(statusCode)\<close>, the literal \<^verbatim>\<open>400\<close>, or the
  key of the response map, which is a string.
\<close>

datatype status = StatusNumber jsnum | StatusString string

record selected =
  sel_statusCode :: string
  sel_schema :: "content_entry option"
  sel_responseMimeType :: "string option"
  sel_headers :: "(string \<times> jsval) list option"

record resolved =
  statusCode :: status
  res_headers :: "(string \<times> jsval) list option"
  res_body :: jsval
  responseMimeType :: "string option"

definition examples_json :: "(string \<times> jsval) list \<Rightarrow> jsval" where
  "examples_json exs =
     JObj (map (\<lambda>(n, v). (n, JObj (if v = JUndefined then [] else [(''value'', v)]))) exs)"

definition content_json :: "content_entry \<Rightarrow> jsval" where
  "content_json c =
     JObj ((if c_schema c = JUndefined then [] else [(''schema'', c_schema c)])
           @ (case c_examples c of None \<Rightarrow> [] | Some exs \<Rightarrow> [(''examples'', examples_json exs)]))"

text \<open>\<^verbatim>\<open>this.responses[statusCode]\<close>: an inherited property has neither content nor headers.\<close>

definition lookup_response :: "(string \<times> response) list \<Rightarrow> string \<Rightarrow> response option" where
  "lookup_response rs k =
     (case map_of rs k of
        Some r \<Rightarrow> Some r
      | None \<Rightarrow>
          if k \<in> set Object_prototype_functions \<or> k = ''__proto__''
          then Some \<lparr>r_headers = None, r_content = None\<rparr>
          else None)"

text \<open>The first entry of \<^verbatim>\<open>content || {}\<close>, as mime type and content.\<close>

definition first_content :: "response \<Rightarrow> string option \<times> content_entry option" where
  "first_content r =
     (case r_content r of
        None \<Rightarrow> (None, None)
      | Some [] \<Rightarrow> (None, None)
      | Some ((mime, c) # rest) \<Rightarrow> (Some mime, Some c))"

definition getFirstResponse :: "path \<Rightarrow> error + selected" where
  "getFirstResponse P =
     (case responses P of
        [] \<Rightarrow> Inl (TypeError ''undefined is not iterable'')
      | (code, firstResponse) # rest \<Rightarrow>
          Inr \<lparr>sel_statusCode = code,
               sel_schema = snd (first_content firstResponse),
               sel_responseMimeType = fst (first_content firstResponse),
               sel_headers = r_headers firstResponse\<rparr>)"

definition getResponseByStatusCode :: "path \<Rightarrow> string \<Rightarrow> error + selected \<times> log list" where
  "getResponseByStatusCode P code =
     (case lookup_response (responses P) code of
        None \<Rightarrow>
          (case getFirstResponse P of
             Inl e \<Rightarrow> Inl e
           | Inr sel \<Rightarrow>
               Inr (sel, [Warn (''Could not find a response for status code '' @ code
                                @ ''. Responding with first response'')]))
      | Some preferredResponse \<Rightarrow>
          Inr (\<lparr>sel_statusCode = code,
                sel_schema = snd (first_content preferredResponse),
                sel_responseMimeType = fst (first_content preferredResponse),
                sel_headers = r_headers preferredResponse\<rparr>, []))"

definition generateResponseHeaders :: "externals \<Rightarrow> (string \<times> jsval) list \<Rightarrow> (string \<times> jsval) list" where
  "generateResponseHeaders E headersSchema =
     foldl (\<lambda>responseHeaders (headerName, headerData).
              obj_set responseHeaders headerName (ResponseGenerator_generate E headerData JUndefined))
       [] headersSchema"

definition RTag :: "string \<Rightarrow> jsval" where
  "RTag preferredExampleName =
     JObj [(''examples'', JObj [(''ex_01'', JObj [(''value'', JStr preferredExampleName)])])]"

definition opt_truthy :: "string option \<Rightarrow> bool" where
  "opt_truthy x = (case x of None \<Rightarrow> False | Some s \<Rightarrow> s \<noteq> [])"

definition opt_json :: "string option \<Rightarrow> jsval" where
  "opt_json x = (case x of None \<Rightarrow> JUndefined | Some s \<Rightarrow> JStr s)"

text \<open>
  The test of \<^verbatim>\<open>find\<close>'s callback: the first content of the response has a non-empty
  \<^verbatim>\<open>examples\<close> map in which the name is an own property with a truthy \<^verbatim>\<open>value\<close>.
\<close>

definition best_example :: "response \<Rightarrow> string \<Rightarrow> jsval option" where
  "best_example r nm =
     (case snd (first_content r) of
        None \<Rightarrow> None
      | Some c \<Rightarrow>
          (case c_examples c of
             None \<Rightarrow> None
           | Some exs \<Rightarrow>
               if exs = [] then None
               else (case map_of exs nm of
                       None \<Rightarrow> None
                     | Some v \<Rightarrow> if truthy v then Some v else None)))"

text \<open>
  The scan over the responses. At the first response that has the example, the
  \<^verbatim>\<open>RTag\<close> descriptor is written into that response's own \<^verbatim>\<open>headers\<close> object when it has
  one (into a fresh object otherwise); the function returns the result together with
  the response map as it is afterwards.
\<close>

fun find_example ::
  "string \<Rightarrow> (string \<times> response) list \<Rightarrow> (resolved \<times> (string \<times> response) list) option" where
  "find_example nm [] = None"
| "find_example nm ((code, r) # rest) =
     (case best_example r nm of
        Some bestExample \<Rightarrow>
          (let hs = obj_set (case r_headers r of None \<Rightarrow> [] | Some h \<Rightarrow> h) ''RTag'' (RTag nm)
           in Some (\<lparr>statusCode = StatusString code,
                      res_headers = Some hs,
                      res_body = bestExample,
                      responseMimeType = fst (first_content r)\<rparr>,
                    (code, (case r_headers r of None \<Rightarrow> r | Some h \<Rightarrow> r\<lparr>r_headers := Some hs\<rparr>)) # rest))
      | None \<Rightarrow>
          (case find_example nm rest of
             None \<Rightarrow> None
           | Some (res, rest') \<Rightarrow> Some (res, (code, r) # rest')))"

definition getFirstResponseByExampleName ::
  "path \<Rightarrow> string option \<Rightarrow> resolved \<times> path \<times> log list" where
  "getFirstResponseByExampleName P preferredExampleName =
     (case preferredExampleName of
        None \<Rightarrow>
          (\<lparr>statusCode = StatusNumber (Fin 400), res_headers = None, res_body = JNull,
            responseMimeType = Some ''application/json''\<rparr>, P, [])
      | Some nm \<Rightarrow>
          if nm = [] then
            (\<lparr>statusCode = StatusNumber (Fin 400), res_headers = None, res_body = JNull,
              responseMimeType = Some ''application/json''\<rparr>, P, [])
          else
            (case find_example nm (responses P) of
               Some (res, rs') \<Rightarrow> (res, P\<lparr>responses := rs'\<rparr>, [])
             | None \<Rightarrow>
                 (\<lparr>statusCode = StatusNumber (Fin 400),
                   res_headers = Some [(''RTag'', RTag nm)],
                   res_body = JObj [(''message'',
                     JStr (''SYSTEM: Could not find a response for example name '' @ [CHR 0x27] @ nm @ [CHR 0x27]))],
                   responseMimeType = Some ''application/json''\<rparr>,
                  P,
                  [Warn (''Could not find a response for example name '' @ nm
                         @ ''. Responding with first response'')])))"

definition getResponse ::
  "externals \<Rightarrow> path \<Rightarrow> string option \<Rightarrow> string option \<Rightarrow> error + resolved \<times> path \<times> log list" where
  "getResponse E P preferredStatusCode preferredExampleName =
     (if opt_truthy preferredStatusCode \<or> preferredExampleName = Some (FIRST_RESPONSE E) then
        (case (if opt_truthy preferredStatusCode
               then getResponseByStatusCode P (the preferredStatusCode)
               else (case getFirstResponse P of Inl e \<Rightarrow> Inl e | Inr sel \<Rightarrow> Inr (sel, []))) of
           Inl e \<Rightarrow> Inl e
         | Inr (sel, lg) \<Rightarrow>
             Inr (\<lparr>statusCode = StatusNumber (StringToNumber (sel_statusCode sel)),
                   res_headers = map_option (generateResponseHeaders E) (sel_headers sel),
                   res_body = (case sel_schema sel of
                                 None \<Rightarrow> JNull
                               | Some c \<Rightarrow> ResponseGenerator_generate E (content_json c)
                                             (opt_json preferredExampleName)),
                   responseMimeType = sel_responseMimeType sel\<rparr>, P, lg))
      else
        (case getFirstResponseByExampleName P preferredExampleName of
           (res, P', lg) \<Rightarrow>
             Inr (res\<lparr>res_headers := map_option (generateResponseHeaders E) (res_headers res)\<rparr>, P', lg)))"


section \<open>Example matching\<close>

text \<open>
  A tally maps an example name to a counter. A counter is a number; it is \<^verbatim>\<open>NaN\<close>
  after \<^verbatim>\<open>++\<close> was applied to a property inherited from \<^verbatim>\<open>Object.prototype\<close>.
\<close>

datatype count = CNaN | Count nat

type_synonym tally = "(string \<times> count) list"

definition inherited :: "string \<Rightarrow> bool" where
  "inherited k = (k \<in> set Object_prototype_functions \<or> k = ''__proto__'')"

text \<open>\<^verbatim>\<open>!tally[k]\<close>: zero, \<^verbatim>\<open>NaN\<close> and \<^verbatim>\<open>undefined\<close> are falsy, an inherited property is truthy.\<close>

definition tally_falsy :: "tally \<Rightarrow> string \<Rightarrow> bool" where
  "tally_falsy t k =
     (case map_of t k of
        Some c \<Rightarrow> c = CNaN \<or> c = Count 0
      | None \<Rightarrow> \<not> inherited k)"

text \<open>The value \<^verbatim>\<open>tally[k] + 1\<close> that \<^verbatim>\<open>tally[k]++\<close> stores.\<close>

definition tally_succ :: "tally \<Rightarrow> string \<Rightarrow> count" where
  "tally_succ t k =
     (case map_of t k of
        Some (Count n) \<Rightarrow> Count (Suc n)
      | Some CNaN \<Rightarrow> CNaN
      | None \<Rightarrow> CNaN)"

text \<open>\<^verbatim>\<open>if(!tally[k]) tally[k] = 0; tally[k]++;\<close>\<close>

definition bump :: "tally \<Rightarrow> string \<Rightarrow> tally" where
  "bump t k =
     (let t1 = (if tally_falsy t k then obj_set t k (Count 0) else t)
      in obj_set t1 k (tally_succ t1 k))"

text \<open>Step 1: the declared examples of the parameters, then of the request body's contents.\<close>

definition tally_parameters :: "parameter list \<Rightarrow> tally \<Rightarrow> tally" where
  "tally_parameters ps t =
     foldl (\<lambda>t param. case examples param of None \<Rightarrow> t | Some exs \<Rightarrow> foldl bump t (map fst exs)) t ps"

definition tally_body :: "request_body option \<Rightarrow> tally \<Rightarrow> tally" where
  "tally_body rb t =
     (case rb of
        None \<Rightarrow> t
      | Some decl \<Rightarrow>
          (case rb_content decl of
             None \<Rightarrow> t
           | Some content \<Rightarrow>
               foldl (\<lambda>t (mime, c). case c_examples c of None \<Rightarrow> t | Some exs \<Rightarrow> foldl bump t (map fst exs))
                 t content))"

definition totalExamples :: "path \<Rightarrow> tally" where
  "totalExamples P = tally_body (requestBody P) (tally_parameters (parameters P) [])"

text \<open>
  \<^verbatim>\<open>Object.keys(totalExamples) === 0\<close> compares an array with a number by strict
  equality, which is false for every array.
\<close>

definition keys_strict_eq_zero :: "string list \<Rightarrow> bool" where
  "keys_strict_eq_zero ks = False"

text \<open>
  Step 2, for the path, query and header facets: every example of the parameter whose
  value has the same \<^verbatim>\<open>Object.entries(...).toString()\<close> as the actual value is counted.
\<close>

fun match_examples :: "(string \<times> jsval) list \<Rightarrow> jsval \<Rightarrow> tally \<Rightarrow> error + tally" where
  "match_examples [] actual m = Inr m"
| "match_examples ((exampleName, v) # rest) actual m =
     (case entries_toString v of
        Inl e \<Rightarrow> Inl e
      | Inr a \<Rightarrow>
          (case entries_toString actual of
             Inl e \<Rightarrow> Inl e
           | Inr b \<Rightarrow> match_examples rest actual (if a = b then bump m exampleName else m)))"

fun match_facet ::
  "(string \<Rightarrow> parameter \<Rightarrow> bool) \<Rightarrow> parameter list \<Rightarrow> (string \<times> jsval) list \<Rightarrow> tally \<Rightarrow> error + tally" where
  "match_facet defines ps [] m = Inr m"
| "match_facet defines ps ((key, actual) # rest) m =
     (case find (defines key) ps of
        None \<Rightarrow> match_facet defines ps rest m
      | Some define \<Rightarrow>
          (case examples define of
             None \<Rightarrow> match_facet defines ps rest m
           | Some exs \<Rightarrow>
               (case match_examples exs actual m of
                  Inl e \<Rightarrow> Inl e
                | Inr m' \<Rightarrow> match_facet defines ps rest m')))"

definition path_defines :: "string \<Rightarrow> parameter \<Rightarrow> bool" where
  "path_defines key x = (paramIn x = ''path'' \<and> name x = key)"

definition query_defines :: "string \<Rightarrow> parameter \<Rightarrow> bool" where
  "query_defines key x = (paramIn x = ''query'' \<and> name x = key)"

definition header_defines :: "string \<Rightarrow> parameter \<Rightarrow> bool" where
  "header_defines key x = (paramIn x = ''header'' \<and> toLowerCase (name x) = toLowerCase key)"

text \<open>The template handed to the path parser: \<^verbatim>\<open>{\<close> becomes \<^verbatim>\<open>:\<close>, \<^verbatim>\<open>}\<close> is removed.\<close>

definition parser_template :: "string \<Rightarrow> string" where
  "parser_template u = filter (\<lambda>c. c \<noteq> CHR 0x7D) (map (\<lambda>c. if c = CHR 0x7B then CHR '':'' else c) u)"

definition match_path :: "externals \<Rightarrow> path \<Rightarrow> string \<Rightarrow> tally \<Rightarrow> error + tally" where
  "match_path E P url m =
     (if CHR 0x7B \<in> set (uri P) then
        (case PathParser_test E (parser_template (uri P)) url of
           None \<Rightarrow> Inl (TypeError ''Cannot convert undefined or null to object'')
         | Some pathVariable \<Rightarrow> match_facet path_defines (parameters P) pathVariable m)
      else Inr m)"

definition match_query :: "externals \<Rightarrow> path \<Rightarrow> string option \<Rightarrow> tally \<Rightarrow> error + tally" where
  "match_query E P rawQuery m =
     (if opt_truthy rawQuery then
        (case JSON_parse E (the rawQuery) of
           None \<Rightarrow> Inl (SyntaxError (the rawQuery))
         | Some queries \<Rightarrow>
             (case Object_entries queries of
                Inl e \<Rightarrow> Inl e
              | Inr es \<Rightarrow> match_facet query_defines (parameters P) es m))
      else Inr m)"

definition match_headers :: "path \<Rightarrow> (string \<times> jsval) list option \<Rightarrow> tally \<Rightarrow> error + tally" where
  "match_headers P requestHeaders m =
     (case requestHeaders of
        None \<Rightarrow> Inr m
      | Some hs \<Rightarrow> match_facet header_defines (parameters P) hs m)"

text \<open>The body facet compares by hash, for every example of every content entry.\<close>

fun match_hashes :: "externals \<Rightarrow> (string \<times> jsval) list \<Rightarrow> jsval \<Rightarrow> tally \<Rightarrow> error + tally" where
  "match_hashes E [] bodyObject m = Inr m"
| "match_hashes E ((exampleName, v) # rest) bodyObject m =
     (case hash E v of
        Inl e \<Rightarrow> Inl e
      | Inr a \<Rightarrow>
          (case hash E bodyObject of
             Inl e \<Rightarrow> Inl e
           | Inr b \<Rightarrow> match_hashes E rest bodyObject (if a = b then bump m exampleName else m)))"

fun match_contents ::
  "externals \<Rightarrow> (string \<times> content_entry) list \<Rightarrow> jsval \<Rightarrow> tally \<Rightarrow> error + tally" where
  "match_contents E [] bodyObject m = Inr m"
| "match_contents E ((mime, c) # rest) bodyObject m =
     (case c_examples c of
        None \<Rightarrow> Inl (TypeError ''Cannot convert undefined or null to object'')
      | Some exs \<Rightarrow>
          (case match_hashes E exs bodyObject m of
             Inl e \<Rightarrow> Inl e
           | Inr m' \<Rightarrow> match_contents E rest bodyObject m'))"

definition match_body :: "externals \<Rightarrow> path \<Rightarrow> jsval \<Rightarrow> tally \<Rightarrow> error + tally" where
  "match_body E P httpRequestBody m =
     (case (if truthy httpRequestBody then
              (case requestBody P of None \<Rightarrow> None | Some decl \<Rightarrow> rb_content decl)
            else None) of
        None \<Rightarrow> Inr m
      | Some content \<Rightarrow>
          (case (case httpRequestBody of
                   JStr raw \<Rightarrow> (case JSON_parse E raw of None \<Rightarrow> Inl (SyntaxError raw) | Some v \<Rightarrow> Inr v)
                 | v \<Rightarrow> Inr v) of
             Inl e \<Rightarrow> Inl e
           | Inr bodyObject \<Rightarrow> match_contents E content bodyObject m))"

text \<open>
  Step 3: the pass over the entries of \<^verbatim>\<open>matchExamples\<close>. \<^verbatim>\<open>responseName\<close> is \<^verbatim>\<open>None\<close>
  while it is \<^verbatim>\<open>undefined\<close>. A counter compares with a property of \<^verbatim>\<open>totalExamples\<close>
  only when that property is an own one holding a number.
\<close>

definition count_eq_total :: "count \<Rightarrow> tally \<Rightarrow> string \<Rightarrow> bool" where
  "count_eq_total c tot k =
     (case c of
        CNaN \<Rightarrow> False
      | Count n \<Rightarrow> map_of tot k = Some (Count n))"

definition count_gt_total :: "count \<Rightarrow> tally \<Rightarrow> string \<Rightarrow> bool" where
  "count_gt_total c tot k =
     (case c of
        CNaN \<Rightarrow> False
      | Count n \<Rightarrow> (case map_of tot k of Some (Count m) \<Rightarrow> m < n | _ \<Rightarrow> False))"

definition count_positive :: "count \<Rightarrow> bool" where
  "count_positive c = (case c of CNaN \<Rightarrow> False | Count n \<Rightarrow> 0 < n)"

text \<open>\<^verbatim>\<open>matchValue > 0 && matchValue === totalExamples[matchName]\<close>\<close>

definition qualifies :: "tally \<Rightarrow> string \<times> count \<Rightarrow> bool" where
  "qualifies tot matchItem =
     (count_positive (snd matchItem) \<and> count_eq_total (snd matchItem) tot (fst matchItem))"

fun select_winner :: "tally \<Rightarrow> tally \<Rightarrow> string option \<Rightarrow> string option" where
  "select_winner tot [] responseName = responseName"
| "select_winner tot ((matchName, matchValue) # rest) responseName =
     select_winner tot rest
       (if qualifies tot (matchName, matchValue) then
          (if \<not> opt_truthy responseName \<or> count_gt_total matchValue tot (the responseName)
           then Some matchName else responseName)
        else responseName)"

definition matchExamples ::
  "externals \<Rightarrow> path \<Rightarrow> string \<Rightarrow> string option \<Rightarrow> jsval \<Rightarrow> (string \<times> jsval) list option \<Rightarrow> error + tally" where
  "matchExamples E P url rawQuery httpRequestBody requestHeaders =
     (case match_path E P url [] of
        Inl e \<Rightarrow> Inl e
      | Inr m1 \<Rightarrow>
          (case match_query E P rawQuery m1 of
             Inl e \<Rightarrow> Inl e
           | Inr m2 \<Rightarrow>
               (case match_headers P requestHeaders m2 of
                  Inl e \<Rightarrow> Inl e
                | Inr m3 \<Rightarrow> match_body E P httpRequestBody m3)))"

definition findPreferredExampleByRequest ::
  "externals \<Rightarrow> path \<Rightarrow> string \<Rightarrow> string option \<Rightarrow> jsval \<Rightarrow> (string \<times> jsval) list option
   \<Rightarrow> error + string option" where
  "findPreferredExampleByRequest E P url rawQuery httpRequestBody requestHeaders =
     (if keys_strict_eq_zero (map fst (totalExamples P)) then Inr (Some (FIRST_RESPONSE E))
      else
        (case matchExamples E P url rawQuery httpRequestBody requestHeaders of
           Inl e \<Rightarrow> Inl e
         | Inr m \<Rightarrow> Inr (select_winner (totalExamples P) m None)))"

section \<open>A sample environment\<close>

text \<open>
  One concrete choice of the collaborators, for evaluating the operation on concrete
  requests: a printer that quotes strings, a validator that accepts everything, a
  generator that returns the value of the hinted example (else of the first one), a
  binder that matches nothing, a hash that is the printed text, and a parser that
  knows five texts and rejects every other one.
\<close>

definition sample_inspect :: "jsval \<Rightarrow> string" where
  "sample_inspect v = (case v of JStr s \<Rightarrow> [CHR 0x27] @ s @ [CHR 0x27] | _ \<Rightarrow> ToString v)"

definition sample_generate :: "jsval \<Rightarrow> jsval \<Rightarrow> jsval" where
  "sample_generate desc hint =
     (case desc of
        JObj kvs \<Rightarrow>
          (case map_of kvs ''examples'' of
             Some (JObj exs) \<Rightarrow>
               (case (case hint of JStr h \<Rightarrow> map_of exs h | _ \<Rightarrow> None) of
                  Some (JObj ex) \<Rightarrow> js_get ex ''value''
                | _ \<Rightarrow> (case exs of (n, JObj ex) # rest \<Rightarrow> js_get ex ''value'' | _ \<Rightarrow> JNull))
           | _ \<Rightarrow> JNull)
      | _ \<Rightarrow> JNull)"

fun sample_text :: "jsval \<Rightarrow> string" where
  "sample_text (JArr xs) = ''['' @ join_comma (map sample_text xs) @ '']''"
| "sample_text (JObj kvs) = ''{'' @ join_comma (map (\<lambda>(k, x). k @ '':'' @ sample_text x) kvs) @ ''}''"
| "sample_text (JStr s) = [CHR 0x22] @ s @ [CHR 0x22]"
| "sample_text v = ToString v"

definition sample_hash :: "jsval \<Rightarrow> error + string" where
  "sample_hash v = (if v = JUndefined then Inl (Error ''Object argument required.'') else Inr (sample_text v))"

definition sample_parse :: "string \<Rightarrow> jsval option" where
  "sample_parse =
     [''{\"id\":1}'' \<mapsto> JObj [(''id'', JNum 1)],
      ''{\"id\":3}'' \<mapsto> JObj [(''id'', JNum 3)],
      ''{\"id\":\"3\"}'' \<mapsto> JObj [(''id'', JStr ''3'')],
      ''{\"id\":\"1\"}'' \<mapsto> JObj [(''id'', JStr ''1'')],
      ''{}'' \<mapsto> JObj []]"

definition sample_externals :: externals where
  "sample_externals =
     \<lparr>FIRST_RESPONSE = ''first_response'',
      inspect = sample_inspect,
      inspect_item = (\<lambda>v i vs. sample_inspect v),
      SchemaValidator_validate = (\<lambda>v s. Inr []),
      ResponseGenerator_generate = sample_generate,
      PathParser_test = (\<lambda>t u. None),
      hash = sample_hash,
      JSON_parse = sample_parse,
      syntax_error_message = (\<lambda>t. ''Unexpected token in JSON'')\<rparr>"

text \<open>
  A sample operation: \<^verbatim>\<open>GET /items\<close> with a required header, two optional query
  parameters (one of them with the examples \<^verbatim>\<open>exA\<close> and \<^verbatim>\<open>exB\<close>) and two responses.
\<close>

definition id_parameter :: parameter where
  "id_parameter =
     \<lparr>paramIn = ''query'', name = ''id'', required = False, deprecated = False,
      schema = Some \<lparr>stype = Some ''integer'', enum = None\<rparr>,
      examples = Some [(''exA'', JNum 1), (''exB'', JNum 2)]\<rparr>"

definition token_parameter :: parameter where
  "token_parameter =
     \<lparr>paramIn = ''header'', name = ''X-Token'', required = True, deprecated = False,
      schema = Some \<lparr>stype = Some ''string'', enum = None\<rparr>, examples = None\<rparr>"

definition limit_parameter :: parameter where
  "limit_parameter =
     \<lparr>paramIn = ''query'', name = ''limit'', required = False, deprecated = False,
      schema = Some \<lparr>stype = Some ''integer'', enum = None\<rparr>, examples = None\<rparr>"

definition items_response :: response where
  "items_response =
     \<lparr>r_headers = Some [(''X-Rate'', JObj [(''schema'', JObj [(''type'', JStr ''integer'')])])],
      r_content = Some [(''application/json'',
        \<lparr>c_schema = JObj [(''type'', JStr ''object'')],
         c_examples = Some [(''exA'', JObj [(''id'', JNum 1)]), (''exB'', JObj [(''id'', JNum 2)])]\<rparr>)]\<rparr>"

definition missing_response :: response where
  "missing_response = \<lparr>r_headers = None, r_content = None\<rparr>"

definition items_path :: path where
  "items_path =
     \<lparr>uri = ''/items'', httpMethod = ''get'',
      parameters = [token_parameter, limit_parameter, id_parameter],
      requestBody = None,
      responses = [(''200'', items_response), (''404'', missing_response)]\<rparr>"

text \<open>
  An operation that declares exactly one parameter, the query parameter \<^verbatim>\<open>id\<close> with the
  examples \<^verbatim>\<open>exA\<close> (value 1) and \<^verbatim>\<open>exB\<close> (value 2), and an operation that declares no
  example at all but has a request body.
\<close>

definition id_path :: path where
  "id_path =
     \<lparr>uri = ''/things'', httpMethod = ''get'',
      parameters = [id_parameter],
      requestBody = None,
      responses = [(''200'', items_response)]\<rparr>"

definition upload_path :: path where
  "upload_path =
     \<lparr>uri = ''/upload'', httpMethod = ''post'',
      parameters = [limit_parameter],
      requestBody = Some \<lparr>rb_required = False,
        rb_content = Some [(''application/json'',
          \<lparr>c_schema = JObj [(''type'', JStr ''object'')], c_examples = None\<rparr>)]\<rparr>,
      responses = [(''200'', missing_response)]\<rparr>"

text \<open>
  An operation that declares the example \<^verbatim>\<open>exA\<close> twice, on the query parameter \<^verbatim>\<open>id\<close>
  and on the request body.
\<close>

definition order_path :: path where
  "order_path =
     \<lparr>uri = ''/orders'', httpMethod = ''post'',
      parameters =
        [\<lparr>paramIn = ''query'', name = ''id'', required = False, deprecated = False,
          schema = Some \<lparr>stype = Some ''string'', enum = None\<rparr>,
          examples = Some [(''exA'', JStr ''1'')]\<rparr>],
      requestBody = Some \<lparr>rb_required = False,
        rb_content = Some [(''application/json'',
          \<lparr>c_schema = JObj [(''type'', JStr ''object'')],
           c_examples = Some [(''exA'', JObj [(''id'', JNum 1)])]\<rparr>)]\<rparr>,
      responses = [(''200'', items_response)]\<rparr>"

definition empty_request :: request where
  "empty_request = \<lparr>headers = [], query = [], path_params = [], cookies = [], body = JUndefined\<rparr>"

section \<open>Properties of the type checker\<close>














section \<open>Properties of request validation\<close>

lemma validateParameterType_msg:
  "validateParameterType E pin nm ty v = Some m \<Longrightarrow> m \<noteq> [] \<and> hd m = CHR ''I''"
  by (auto simp: validateParameterType_def isValidType_def message_def split: sum.splits if_splits)

lemma validateParameterEnum_msg:
  "validateParameterEnum E pin nm sch v = Some m \<Longrightarrow> m \<noteq> [] \<and> hd m = CHR ''I''"
  by (auto simp: validateParameterEnum_def split: if_splits)

lemma validateParameterSchema_msg:
  "fst (validateParameterSchema E p v) = Some m \<Longrightarrow> m \<noteq> [] \<and> hd m = CHR ''I''"
  by (auto simp: validateParameterSchema_def split: option.splits if_splits
      dest: validateParameterType_msg validateParameterEnum_msg)

lemma fst_validateParameter':
  "fst (validateParameter' E p rp) =
     (if js_get rp (name p) = JUndefined then
        (if required p then Some (''Missing required '' @ paramIn p @ '' param '' @ name p) else None)
      else fst (validateParameterSchema E p (js_get rp (name p))))"
  by (simp add: validateParameter'_def Let_def split: prod.splits)









lemma validateParameter_header:
  "paramIn p = ''header'' \<Longrightarrow>
   validateParameter E p req = validateParameter' E (p\<lparr>name := toLowerCase (name p)\<rparr>) (headers req)"
  by (simp add: validateParameter_def)

text \<open>
  C9 (as the code has it). For a declared header parameter the declared name is put
  in lower case and that exact key is read from the request's header map. So two
  declarations that differ only in letter case validate alike; the required-missing
  message is returned exactly when the parameter is required and the read of the
  lower-case name yields \<^verbatim>\<open>undefined\<close>; and a request that carries the header under the
  lower-case name is treated as present: its value goes to the schema check. The
  request's own header names are not put in lower case.
\<close>

theorem header_name_lookup:
  "paramIn p = ''header'' \<longrightarrow>
     (toLowerCase n = toLowerCase (name p) \<longrightarrow>
        validateParameter E (p\<lparr>name := n\<rparr>) req = validateParameter E p req)
     \<and> (fst (validateParameter E p req) = Some (''Missing required header param '' @ toLowerCase (name p))
          \<longleftrightarrow> required p \<and> js_get (headers req) (toLowerCase (name p)) = JUndefined)
     \<and> (distinct (map fst (headers req)) \<and> (toLowerCase (name p), v) \<in> set (headers req) \<and> v \<noteq> JUndefined \<longrightarrow>
          fst (validateParameter E p req)
            = fst (validateParameterSchema E (p\<lparr>name := toLowerCase (name p)\<rparr>) v))"
proof
  assume h: "paramIn p = ''header''"
  let ?p = "p\<lparr>name := toLowerCase (name p)\<rparr>"
  have eq: "validateParameter E p req = validateParameter' E ?p (headers req)"
    using h by (rule validateParameter_header)
  have a: "toLowerCase n = toLowerCase (name p) \<longrightarrow>
        validateParameter E (p\<lparr>name := n\<rparr>) req = validateParameter E p req"
    using h by (simp add: validateParameter_def)
  have b: "fst (validateParameter E p req) = Some (''Missing required header param '' @ toLowerCase (name p))
          \<longleftrightarrow> required p \<and> js_get (headers req) (toLowerCase (name p)) = JUndefined"
  proof (cases "js_get (headers req) (toLowerCase (name p)) = JUndefined")
    case True
    then show ?thesis using h by (simp add: eq fst_validateParameter')
  next
    case False
    then have r: "fst (validateParameter E p req) = fst (validateParameterSchema E ?p (js_get (headers req) (toLowerCase (name p))))"
      by (simp add: eq fst_validateParameter')
    have "fst (validateParameterSchema E ?p (js_get (headers req) (toLowerCase (name p))))
          \<noteq> Some (''Missing required header param '' @ toLowerCase (name p))"
      using validateParameterSchema_msg [of E ?p "js_get (headers req) (toLowerCase (name p))"
          "''Missing required header param '' @ toLowerCase (name p)"]
      by auto
    with r False show ?thesis by simp
  qed
  have c: "distinct (map fst (headers req)) \<and> (toLowerCase (name p), v) \<in> set (headers req) \<and> v \<noteq> JUndefined \<longrightarrow>
          fst (validateParameter E p req) = fst (validateParameterSchema E ?p v)"
  proof
    assume c: "distinct (map fst (headers req)) \<and> (toLowerCase (name p), v) \<in> set (headers req) \<and> v \<noteq> JUndefined"
    then have "map_of (headers req) (toLowerCase (name p)) = Some v" by simp
    then have "js_get (headers req) (toLowerCase (name p)) = v" by (simp add: js_get_def)
    with c show "fst (validateParameter E p req) = fst (validateParameterSchema E ?p v)"
      by (simp add: eq fst_validateParameter')
  qed
  from a b c show "(toLowerCase n = toLowerCase (name p) \<longrightarrow>
        validateParameter E (p\<lparr>name := n\<rparr>) req = validateParameter E p req)
     \<and> (fst (validateParameter E p req) = Some (''Missing required header param '' @ toLowerCase (name p))
          \<longleftrightarrow> required p \<and> js_get (headers req) (toLowerCase (name p)) = JUndefined)
     \<and> (distinct (map fst (headers req)) \<and> (toLowerCase (name p), v) \<in> set (headers req) \<and> v \<noteq> JUndefined \<longrightarrow>
          fst (validateParameter E p req)
            = fst (validateParameterSchema E (p\<lparr>name := toLowerCase (name p)\<rparr>) v))"
    by blast
qed

theorem header_name_lookup_witness:
  "paramIn token_parameter = ''header''
   \<and> toLowerCase ''x-TOKEN'' = toLowerCase (name token_parameter)
   \<and> distinct (map fst [(''x-token'', JStr ''abc'')])
   \<and> (toLowerCase (name token_parameter), JStr ''abc'') \<in> set [(''x-token'', JStr ''abc'')]
   \<and> validateParameter sample_externals (token_parameter\<lparr>name := ''x-TOKEN''\<rparr>)
        (empty_request\<lparr>headers := [(''x-token'', JStr ''abc'')]\<rparr>) = (None, [])
   \<and> validateParameter sample_externals token_parameter
        (empty_request\<lparr>headers := [(''x-token'', JStr ''abc'')]\<rparr>) = (None, [])
   \<and> fst (validateParameter sample_externals token_parameter empty_request)
       = Some ''Missing required header param x-token''"
proof -
  have 1: "paramIn token_parameter = ''header''" by (simp add: token_parameter_def)
  have 2: "toLowerCase ''x-TOKEN'' = toLowerCase (name token_parameter)" by code_simp
  have 3: "toLowerCase (name token_parameter) = ''x-token''" by code_simp
  have 4: "validateParameter sample_externals token_parameter
        (empty_request\<lparr>headers := [(''x-token'', JStr ''abc'')]\<rparr>) = (None, [])" by code_simp
  have 5: "required token_parameter \<and> js_get (headers empty_request) ''x-token'' = JUndefined" by code_simp
  show ?thesis
    using 1 2 3 4 5
      header_name_lookup [of token_parameter "''x-TOKEN''" sample_externals
        "empty_request\<lparr>headers := [(''x-token'', JStr ''abc'')]\<rparr>" "JStr ''abc''"]
      header_name_lookup [of token_parameter "''x-TOKEN''" sample_externals empty_request "JStr ''abc''"]
    by simp
qed

theorem header_request_casing_counterexample:
  "fst (validateParameter sample_externals token_parameter
          (empty_request\<lparr>headers := [(''X-Token'', JStr ''abc'')]\<rparr>))
     = Some ''Missing required header param x-token''"
  by code_simp

section \<open>Properties of response resolution\<close>







text \<open>
  C7 at a concrete input. On the sample operation the named-example path returns the
  key of the response map, the string \<^verbatim>\<open>200\<close>, as status code, whereas the explicit
  status-code path returns the number 200.
\<close>

theorem named_example_status_is_string:
  "map_sum id (statusCode \<circ> fst) (getResponse sample_externals items_path None (Some ''exB''))
     = Inr (StatusString ''200'')
   \<and> map_sum id (statusCode \<circ> fst) (getResponse sample_externals items_path (Some ''200'') (Some ''exB''))
     = Inr (StatusNumber (Fin 200))"
  by code_simp

text \<open>
  C5 at a concrete input. Resolving the example \<^verbatim>\<open>exA\<close> on the sample operation leaves
  the operation with an \<^verbatim>\<open>RTag\<close> descriptor in the declared headers of response 200,
  which had only \<^verbatim>\<open>X-Rate\<close>; a later resolution by status code 200 then returns an
  \<^verbatim>\<open>RTag\<close> header that the unchanged operation does not return.
\<close>

theorem declared_headers_mutated:
  "map_sum id (fst \<circ> snd) (getResponse sample_externals items_path None (Some ''exA'')) =
     Inr (items_path\<lparr>responses :=
            [(''200'', items_response\<lparr>r_headers :=
                Some [(''X-Rate'', JObj [(''schema'', JObj [(''type'', JStr ''integer'')])]),
                      (''RTag'', RTag ''exA'')]\<rparr>),
             (''404'', missing_response)]\<rparr>)
   \<and> r_headers items_response
       = Some [(''X-Rate'', JObj [(''schema'', JObj [(''type'', JStr ''integer'')])])]
   \<and> map_sum id (res_headers \<circ> fst) (getResponse sample_externals items_path (Some ''200'') None)
       = Inr (Some [(''X-Rate'', JNull)])
   \<and> map_sum id (res_headers \<circ> fst)
         (getResponse sample_externals
            (items_path\<lparr>responses :=
               [(''200'', items_response\<lparr>r_headers :=
                   Some [(''X-Rate'', JObj [(''schema'', JObj [(''type'', JStr ''integer'')])]),
                         (''RTag'', RTag ''exA'')]\<rparr>),
                (''404'', missing_response)]\<rparr>)
            (Some ''200'') None)
       = Inr (Some [(''X-Rate'', JNull), (''RTag'', JStr ''exA'')])"
  by code_simp
section \<open>Properties of example matching\<close>

lemma qualifies_iff:
  "qualifies tot (k, c) = (\<exists>n. c = Count n \<and> 0 < n \<and> map_of tot k = Some (Count n))"
  by (cases c) (auto simp: qualifies_def count_positive_def count_eq_total_def)

lemma select_winner_None_iff:
  "select_winner tot m acc = None \<longleftrightarrow> acc = None \<and> (\<forall>e \<in> set m. \<not> qualifies tot e)"
  by (induction m arbitrary: acc) (auto simp: opt_truthy_def split: if_splits option.splits)

lemma select_winner_from:
  assumes "a \<noteq> []" "map_of tot a = Some (Count na)" "[] \<notin> fst ` set m"
  shows "(select_winner tot m (Some a) = Some a \<and> (\<forall>k n. (k, Count n) \<in> set m \<longrightarrow> qualifies tot (k, Count n) \<longrightarrow> n \<le> na))
       \<or> (\<exists>pre w n post. select_winner tot m (Some a) = Some w \<and> m = pre @ (w, Count n) # post \<and> qualifies tot (w, Count n) \<and> na < n
            \<and> (\<forall>k j. (k, Count j) \<in> set pre \<longrightarrow> qualifies tot (k, Count j) \<longrightarrow> j < n)
            \<and> (\<forall>k j. (k, Count j) \<in> set post \<longrightarrow> qualifies tot (k, Count j) \<longrightarrow> j \<le> n))"
  using assms
proof (induction m arbitrary: a na)
  case Nil
  then show ?case by simp
next
  case (Cons e m)
  obtain k c where e: "e = (k, c)" by (cases e)
  from Cons.prems have knz: "k \<noteq> []" and m: "[] \<notin> fst ` set m" by (auto simp: e)
  show ?case
  proof (cases "qualifies tot (k, c) \<and> count_gt_total c tot a")
    case True
    then obtain n where n: "c = Count n" "0 < n" "map_of tot k = Some (Count n)" "na < n"
      using Cons.prems(2) by (cases c) (auto simp: qualifies_iff count_gt_total_def)
    have step: "select_winner tot (e # m) (Some a) = select_winner tot m (Some k)"
      using True Cons.prems(1) by (simp add: e opt_truthy_def)
    from Cons.IH [OF knz n(3) m] show ?thesis
    proof
      assume h: "select_winner tot m (Some k) = Some k \<and> (\<forall>k' n'. (k', Count n') \<in> set m \<longrightarrow> qualifies tot (k', Count n') \<longrightarrow> n' \<le> n)"
      have "select_winner tot (e # m) (Some a) = Some k \<and> e # m = [] @ (k, Count n) # m \<and> qualifies tot (k, Count n) \<and> na < n
            \<and> (\<forall>k' j. (k', Count j) \<in> set [] \<longrightarrow> qualifies tot (k', Count j) \<longrightarrow> j < n)
            \<and> (\<forall>k' j. (k', Count j) \<in> set m \<longrightarrow> qualifies tot (k', Count j) \<longrightarrow> j \<le> n)"
        using h step True n e by simp
      then show ?thesis by blast
    next
      assume "\<exists>pre w n' post. select_winner tot m (Some k) = Some w \<and> m = pre @ (w, Count n') # post \<and> qualifies tot (w, Count n') \<and> n < n'
            \<and> (\<forall>k j. (k, Count j) \<in> set pre \<longrightarrow> qualifies tot (k, Count j) \<longrightarrow> j < n')
            \<and> (\<forall>k j. (k, Count j) \<in> set post \<longrightarrow> qualifies tot (k, Count j) \<longrightarrow> j \<le> n')"
      then obtain pre w n' post where h: "select_winner tot m (Some k) = Some w" "m = pre @ (w, Count n') # post"
          "qualifies tot (w, Count n')" "n < n'"
          "\<forall>k j. (k, Count j) \<in> set pre \<longrightarrow> qualifies tot (k, Count j) \<longrightarrow> j < n'"
          "\<forall>k j. (k, Count j) \<in> set post \<longrightarrow> qualifies tot (k, Count j) \<longrightarrow> j \<le> n'"
        by blast
      have "select_winner tot (e # m) (Some a) = Some w \<and> e # m = (e # pre) @ (w, Count n') # post \<and> qualifies tot (w, Count n') \<and> na < n'
            \<and> (\<forall>k' j. (k', Count j) \<in> set (e # pre) \<longrightarrow> qualifies tot (k', Count j) \<longrightarrow> j < n')
            \<and> (\<forall>k' j. (k', Count j) \<in> set post \<longrightarrow> qualifies tot (k', Count j) \<longrightarrow> j \<le> n')"
        using h step n e by auto
      then show ?thesis by blast
    qed
  next
    case False
    have step: "select_winner tot (e # m) (Some a) = select_winner tot m (Some a)"
      using False Cons.prems(1) by (auto simp: e opt_truthy_def)
    have le: "qualifies tot (k, Count j) \<Longrightarrow> c = Count j \<Longrightarrow> j \<le> na" for j
      using False Cons.prems(2) by (auto simp: count_gt_total_def)
    from Cons.IH [OF Cons.prems(1) Cons.prems(2) m] show ?thesis
    proof
      assume h: "select_winner tot m (Some a) = Some a \<and> (\<forall>k n. (k, Count n) \<in> set m \<longrightarrow> qualifies tot (k, Count n) \<longrightarrow> n \<le> na)"
      then have "select_winner tot (e # m) (Some a) = Some a \<and> (\<forall>k n. (k, Count n) \<in> set (e # m) \<longrightarrow> qualifies tot (k, Count n) \<longrightarrow> n \<le> na)"
        using step le e by auto
      then show ?thesis by blast
    next
      assume "\<exists>pre w n post. select_winner tot m (Some a) = Some w \<and> m = pre @ (w, Count n) # post \<and> qualifies tot (w, Count n) \<and> na < n
            \<and> (\<forall>k j. (k, Count j) \<in> set pre \<longrightarrow> qualifies tot (k, Count j) \<longrightarrow> j < n)
            \<and> (\<forall>k j. (k, Count j) \<in> set post \<longrightarrow> qualifies tot (k, Count j) \<longrightarrow> j \<le> n)"
      then obtain pre w n post where h: "select_winner tot m (Some a) = Some w" "m = pre @ (w, Count n) # post"
          "qualifies tot (w, Count n)" "na < n"
          "\<forall>k j. (k, Count j) \<in> set pre \<longrightarrow> qualifies tot (k, Count j) \<longrightarrow> j < n"
          "\<forall>k j. (k, Count j) \<in> set post \<longrightarrow> qualifies tot (k, Count j) \<longrightarrow> j \<le> n"
        by blast
      have w: "select_winner tot (e # m) (Some a) = Some w" by (simp only: step h(1))
      have lt: "qualifies tot (k, Count j) \<Longrightarrow> c = Count j \<Longrightarrow> j < n" for j
        using le [of j] h(4) by simp
      have "select_winner tot (e # m) (Some a) = Some w \<and> e # m = (e # pre) @ (w, Count n) # post \<and> qualifies tot (w, Count n) \<and> na < n
            \<and> (\<forall>k' j. (k', Count j) \<in> set (e # pre) \<longrightarrow> qualifies tot (k', Count j) \<longrightarrow> j < n)
            \<and> (\<forall>k' j. (k', Count j) \<in> set post \<longrightarrow> qualifies tot (k', Count j) \<longrightarrow> j \<le> n)"
        using w h(2-6) lt e by auto
      then show ?thesis by blast
    qed
  qed
qed


lemma select_winner_start:
  assumes "[] \<notin> fst ` set m" "select_winner tot m None = Some w"
  shows "\<exists>pre n post. m = pre @ (w, Count n) # post \<and> qualifies tot (w, Count n)
            \<and> (\<forall>k j. (k, Count j) \<in> set pre \<longrightarrow> qualifies tot (k, Count j) \<longrightarrow> j < n)
            \<and> (\<forall>k j. (k, Count j) \<in> set post \<longrightarrow> qualifies tot (k, Count j) \<longrightarrow> j \<le> n)"
  using assms
proof (induction m)
  case Nil
  then show ?case by simp
next
  case (Cons e m)
  obtain k c where e: "e = (k, c)" by (cases e)
  from Cons.prems have knz: "k \<noteq> []" and m: "[] \<notin> fst ` set m" by (auto simp: e)
  show ?case
  proof (cases "qualifies tot (k, c)")
    case True
    then obtain n where n: "c = Count n" "0 < n" "map_of tot k = Some (Count n)"
      by (auto simp: qualifies_iff)
    have step: "select_winner tot (e # m) None = select_winner tot m (Some k)"
      using True by (simp add: e opt_truthy_def)
    from select_winner_from [OF knz n(3) m] show ?thesis
    proof
      assume h: "select_winner tot m (Some k) = Some k \<and> (\<forall>k' n'. (k', Count n') \<in> set m \<longrightarrow> qualifies tot (k', Count n') \<longrightarrow> n' \<le> n)"
      with step Cons.prems(2) have "w = k" by simp
      then have "e # m = [] @ (w, Count n) # m \<and> qualifies tot (w, Count n)
            \<and> (\<forall>k j. (k, Count j) \<in> set [] \<longrightarrow> qualifies tot (k, Count j) \<longrightarrow> j < n)
            \<and> (\<forall>k j. (k, Count j) \<in> set m \<longrightarrow> qualifies tot (k, Count j) \<longrightarrow> j \<le> n)"
        using h True n e by simp
      then show ?thesis by blast
    next
      assume "\<exists>pre w n' post. select_winner tot m (Some k) = Some w \<and> m = pre @ (w, Count n') # post \<and> qualifies tot (w, Count n') \<and> n < n'
            \<and> (\<forall>k j. (k, Count j) \<in> set pre \<longrightarrow> qualifies tot (k, Count j) \<longrightarrow> j < n')
            \<and> (\<forall>k j. (k, Count j) \<in> set post \<longrightarrow> qualifies tot (k, Count j) \<longrightarrow> j \<le> n')"
      then obtain pre w' n' post where h: "select_winner tot m (Some k) = Some w'" "m = pre @ (w', Count n') # post"
          "qualifies tot (w', Count n')" "n < n'"
          "\<forall>k j. (k, Count j) \<in> set pre \<longrightarrow> qualifies tot (k, Count j) \<longrightarrow> j < n'"
          "\<forall>k j. (k, Count j) \<in> set post \<longrightarrow> qualifies tot (k, Count j) \<longrightarrow> j \<le> n'"
        by blast
      from step Cons.prems(2) h(1) have ww: "w' = w" by simp
      have "e # m = (e # pre) @ (w, Count n') # post \<and> qualifies tot (w, Count n')
            \<and> (\<forall>k' j. (k', Count j) \<in> set (e # pre) \<longrightarrow> qualifies tot (k', Count j) \<longrightarrow> j < n')
            \<and> (\<forall>k' j. (k', Count j) \<in> set post \<longrightarrow> qualifies tot (k', Count j) \<longrightarrow> j \<le> n')"
        using h(2-6) ww n e by auto
      then show ?thesis by blast
    qed
  next
    case False
    have step: "select_winner tot (e # m) None = select_winner tot m None"
      using False by (simp add: e)
    with Cons.prems(2) have "select_winner tot m None = Some w" by simp
    from Cons.IH [OF m this] obtain pre n post where h: "m = pre @ (w, Count n) # post"
          "qualifies tot (w, Count n)"
          "\<forall>k j. (k, Count j) \<in> set pre \<longrightarrow> qualifies tot (k, Count j) \<longrightarrow> j < n"
          "\<forall>k j. (k, Count j) \<in> set post \<longrightarrow> qualifies tot (k, Count j) \<longrightarrow> j \<le> n"
      by blast
    have "e # m = (e # pre) @ (w, Count n) # post \<and> qualifies tot (w, Count n)
            \<and> (\<forall>k' j. (k', Count j) \<in> set (e # pre) \<longrightarrow> qualifies tot (k', Count j) \<longrightarrow> j < n)
            \<and> (\<forall>k' j. (k', Count j) \<in> set post \<longrightarrow> qualifies tot (k', Count j) \<longrightarrow> j \<le> n)"
      using h False e by auto
    then show ?thesis by blast
  qed
qed

lemma findPreferredExampleByRequest_eq:
  "findPreferredExampleByRequest E P url q b h =
     (case matchExamples E P url q b h of
        Inl e \<Rightarrow> Inl e
      | Inr m \<Rightarrow> Inr (select_winner (totalExamples P) m None))"
  by (simp add: findPreferredExampleByRequest_def keys_strict_eq_zero_def)

text \<open>
  C2 (as the code has it). A name of the match tally qualifies exactly when its match
  counter is a positive number equal to its own counter in the total tally. The pass
  returns no name exactly when no entry qualifies. When no name of the match tally is
  the empty string and the pass returns \<^verbatim>\<open>w\<close>, then \<^verbatim>\<open>w\<close> is a qualifying entry, every
  qualifying entry before it has a strictly smaller counter and every qualifying entry
  after it has a counter that is not greater: the first of the qualifying names with
  the highest count. The matcher returns the result of this pass over the tallies it
  built, or the exception raised while building them.
\<close>

theorem winner_selection:
  "(qualifies tot (k, c) \<longleftrightarrow> (\<exists>n. c = Count n \<and> 0 < n \<and> map_of tot k = Some (Count n)))
   \<and> (select_winner tot m None = None \<longleftrightarrow> (\<forall>e \<in> set m. \<not> qualifies tot e))
   \<and> ([] \<notin> fst ` set m \<and> select_winner tot m None = Some w \<longrightarrow>
        (\<exists>pre n post. m = pre @ (w, Count n) # post \<and> qualifies tot (w, Count n)
            \<and> (\<forall>k j. (k, Count j) \<in> set pre \<longrightarrow> qualifies tot (k, Count j) \<longrightarrow> j < n)
            \<and> (\<forall>k j. (k, Count j) \<in> set post \<longrightarrow> qualifies tot (k, Count j) \<longrightarrow> j \<le> n)))
   \<and> findPreferredExampleByRequest E P url q b h =
       (case matchExamples E P url q b h of
          Inl e \<Rightarrow> Inl e
        | Inr m' \<Rightarrow> Inr (select_winner (totalExamples P) m' None))"
  using qualifies_iff [of tot k c] select_winner_None_iff [of tot m None]
    select_winner_start [of m tot w] findPreferredExampleByRequest_eq [of E P url q b h]
  by blast

theorem winner_selection_witness:
  "[] \<notin> fst ` set [(''a'', Count 1), (''b'', Count 2), (''c'', Count 2), (''d'', Count 2)]
   \<and> select_winner [(''a'', Count 1), (''b'', Count 2), (''c'', Count 2), (''d'', Count 3)]
         [(''a'', Count 1), (''b'', Count 2), (''c'', Count 2), (''d'', Count 2)] None = Some ''b''
   \<and> qualifies [(''a'', Count 1), (''b'', Count 2), (''c'', Count 2), (''d'', Count 3)] (''c'', Count 2)
   \<and> \<not> qualifies [(''a'', Count 1), (''b'', Count 2), (''c'', Count 2), (''d'', Count 3)] (''d'', Count 2)
   \<and> (\<exists>pre n post.
         [(''a'', Count 1), (''b'', Count 2), (''c'', Count 2), (''d'', Count 2)] = pre @ (''b'', Count n) # post
         \<and> qualifies [(''a'', Count 1), (''b'', Count 2), (''c'', Count 2), (''d'', Count 3)] (''b'', Count n))
   \<and> totalExamples order_path = [(''exA'', Count 2)]
   \<and> findPreferredExampleByRequest sample_externals order_path ''/orders''
         (Some ''{\"id\":\"1\"}'') (JStr ''{\"id\":1}'') None = Inr (Some ''exA'')
   \<and> matchExamples sample_externals order_path ''/orders''
         (Some ''{\"id\":\"1\"}'') (JStr ''{\"id\":3}'') None = Inr [(''exA'', Count 1)]
   \<and> findPreferredExampleByRequest sample_externals order_path ''/orders''
         (Some ''{\"id\":\"1\"}'') (JStr ''{\"id\":3}'') None = Inr None"
proof -
  let ?tot = "[(''a'', Count 1), (''b'', Count 2), (''c'', Count 2), (''d'', Count 3)]"
  let ?m = "[(''a'', Count 1), (''b'', Count 2), (''c'', Count 2), (''d'', Count 2)]"
  have 1: "[] \<notin> fst ` set ?m" by simp
  have 2: "select_winner ?tot ?m None = Some ''b''" by code_simp
  have 3: "qualifies ?tot (''c'', Count 2) \<and> \<not> qualifies ?tot (''d'', Count 2)" by code_simp
  have 4: "totalExamples order_path = [(''exA'', Count 2)]" by code_simp
  have 5: "matchExamples sample_externals order_path ''/orders''
         (Some ''{\"id\":\"1\"}'') (JStr ''{\"id\":1}'') None = Inr [(''exA'', Count 2)]" by code_simp
  have 6: "matchExamples sample_externals order_path ''/orders''
         (Some ''{\"id\":\"1\"}'') (JStr ''{\"id\":3}'') None = Inr [(''exA'', Count 1)]" by code_simp
  have 7: "select_winner [(''exA'', Count 2)] [(''exA'', Count 2)] None = Some ''exA''" by code_simp
  have 8: "select_winner [(''exA'', Count 2)] [(''exA'', Count 1)] None = None" by code_simp
  from winner_selection [of ?tot "''c''" "Count 2" ?m "''b''" sample_externals order_path "''/orders''"
      "Some ''{\"id\":\"1\"}''" "JStr ''{\"id\":1}''" None] 1 2
  have a: "\<exists>pre n post. ?m = pre @ (''b'', Count n) # post \<and> qualifies ?tot (''b'', Count n)"
    by blast
  have b: "findPreferredExampleByRequest sample_externals order_path ''/orders''
         (Some ''{\"id\":\"1\"}'') (JStr ''{\"id\":1}'') None = Inr (Some ''exA'')"
    using winner_selection [of ?tot "''c''" "Count 2" ?m "''b''" sample_externals order_path "''/orders''"
      "Some ''{\"id\":\"1\"}''" "JStr ''{\"id\":1}''" None] 4 5 7
    by simp
  have c: "findPreferredExampleByRequest sample_externals order_path ''/orders''
         (Some ''{\"id\":\"1\"}'') (JStr ''{\"id\":3}'') None = Inr None"
    using findPreferredExampleByRequest_eq [of sample_externals order_path "''/orders''"
      "Some ''{\"id\":\"1\"}''" "JStr ''{\"id\":3}''" None] 4 6 8
    by simp
  from 1 2 3 4 6 a b c show ?thesis by blast
qed
text \<open>
  On the operation with the single query parameter \<^verbatim>\<open>id\<close>, the query \<^verbatim>\<open>{"id":"3"}\<close>
  matches no example: no name qualifies and the matcher returns \<^verbatim>\<open>undefined\<close>, which
  is not the first-response marker.
\<close>

theorem no_qualifying_name_counterexample:
  "findPreferredExampleByRequest sample_externals id_path ''/things'' (Some ''{\"id\":\"3\"}'') JUndefined None
     = Inr None
   \<and> matchExamples sample_externals id_path ''/things'' (Some ''{\"id\":\"3\"}'') JUndefined None = Inr []
   \<and> totalExamples id_path = [(''exA'', Count 1), (''exB'', Count 1)]"
  by code_simp

text \<open>The pass drops an empty name it had selected when the next name qualifies.\<close>

lemma select_winner_empty_name:
  "select_winner [([], Count 1), (''a'', Count 1)] [([], Count 1), (''a'', Count 1)] None = Some ''a''"
  by code_simp

text \<open>
  C1 at a concrete input. On the operation with the single query parameter \<^verbatim>\<open>id\<close> and
  the examples \<^verbatim>\<open>exA\<close> (value 1) and \<^verbatim>\<open>exB\<close> (value 2), the parsed query \<^verbatim>\<open>{id: 3}\<close> selects
  \<^verbatim>\<open>exA\<close>, as \<^verbatim>\<open>{id: 1}\<close> does: \<^verbatim>\<open>Object.entries(...).toString()\<close> is the empty string for
  every number.
\<close>

theorem query_value_three_selects_exA:
  "findPreferredExampleByRequest sample_externals id_path ''/things'' (Some ''{\"id\":3}'') JUndefined None
     = Inr (Some ''exA'')
   \<and> JSON_parse sample_externals ''{\"id\":3}'' = Some (JObj [(''id'', JNum 3)])
   \<and> findPreferredExampleByRequest sample_externals id_path ''/things'' (Some ''{\"id\":1}'') JUndefined None
     = Inr (Some ''exA'')
   \<and> entries_toString (JNum 3) = Inr [] \<and> entries_toString (JNum 1) = Inr [] \<and> entries_toString (JNum 2) = Inr []"
  by code_simp

text \<open>
  C3 at a concrete input. On an operation without any declared example the total tally
  is empty and the matcher does not return the first-response marker: it returns
  \<^verbatim>\<open>undefined\<close> for a request without body, and throws for a request with a body, because
  the body facet enumerates the missing \<^verbatim>\<open>examples\<close>.
\<close>

theorem no_examples_no_short_circuit:
  "totalExamples upload_path = []
   \<and> findPreferredExampleByRequest sample_externals upload_path ''/upload'' (Some ''{}'') JUndefined (Some [])
       = Inr None
   \<and> findPreferredExampleByRequest sample_externals upload_path ''/upload'' (Some ''{}'') (JStr ''{}'') (Some [])
       = Inl (TypeError ''Cannot convert undefined or null to object'')"
  by code_simp

lemma match_query_unparsable:
  "opt_truthy q \<Longrightarrow> JSON_parse E (the q) = None \<Longrightarrow> match_query E P q m = Inl (SyntaxError (the q))"
  by (simp add: match_query_def)

lemma match_body_unparsable:
  "raw \<noteq> [] \<Longrightarrow> requestBody P = Some decl \<Longrightarrow> rb_content decl = Some content \<Longrightarrow>
   JSON_parse E raw = None \<Longrightarrow> match_body E P (JStr raw) m = Inl (SyntaxError raw)"
  by (simp add: match_body_def)

text \<open>
  C4 (as the code has it). The matcher does not contain a parse failure. When the path
  facet raised nothing and the raw query is a non-empty text that does not parse, the
  matcher throws the parser's \<^verbatim>\<open>SyntaxError\<close>; when the path, query and header facets
  raised nothing, the operation declares request-body content and the body is a
  non-empty text that does not parse, it throws likewise. A raw query that is absent
  or empty, and a falsy body, are skipped without parsing.
\<close>

theorem malformed_json_propagates:
  "(match_path E P url [] = Inr m1 \<and> opt_truthy q \<and> JSON_parse E (the q) = None \<longrightarrow>
      findPreferredExampleByRequest E P url q b h = Inl (SyntaxError (the q)))
   \<and> (match_path E P url [] = Inr m1 \<and> match_query E P q m1 = Inr m2 \<and> match_headers P h m2 = Inr m3
       \<and> raw \<noteq> [] \<and> requestBody P = Some decl \<and> rb_content decl = Some content
       \<and> JSON_parse E raw = None \<longrightarrow>
      findPreferredExampleByRequest E P url q (JStr raw) h = Inl (SyntaxError raw))
   \<and> (\<not> opt_truthy q \<longrightarrow> match_query E P q m = Inr m)
   \<and> (\<not> truthy b \<longrightarrow> match_body E P b m = Inr m)"
  by (simp add: findPreferredExampleByRequest_eq matchExamples_def match_query_unparsable
      match_body_unparsable)
    (simp add: match_query_def match_body_def)

theorem malformed_json_propagates_witness:
  "match_path sample_externals order_path ''/orders'' [] = Inr []
   \<and> opt_truthy (Some ''{\"id\"'') \<and> JSON_parse sample_externals ''{\"id\"'' = None
   \<and> findPreferredExampleByRequest sample_externals order_path ''/orders'' (Some ''{\"id\"'') JUndefined None
       = Inl (SyntaxError ''{\"id\"'')
   \<and> match_query sample_externals order_path (Some ''{\"id\":\"1\"}'') [] = Inr [(''exA'', Count 1)]
   \<and> match_headers order_path None [(''exA'', Count 1)] = Inr [(''exA'', Count 1)]
   \<and> findPreferredExampleByRequest sample_externals order_path ''/orders'' (Some ''{\"id\":\"1\"}'') (JStr ''{\"id\"'') None
       = Inl (SyntaxError ''{\"id\"'')
   \<and> match_query sample_externals order_path None [] = Inr []
   \<and> match_body sample_externals order_path JUndefined [] = Inr []"
proof -
  have 1: "match_path sample_externals order_path ''/orders'' [] = Inr []" by code_simp
  have 2: "opt_truthy (Some ''{\"id\"'') \<and> JSON_parse sample_externals ''{\"id\"'' = None" by code_simp
  have 3: "match_query sample_externals order_path (Some ''{\"id\":\"1\"}'') [] = Inr [(''exA'', Count 1)]" by code_simp
  have 4: "match_headers order_path None [(''exA'', Count 1)] = Inr [(''exA'', Count 1)]" by code_simp
  have 5: "requestBody order_path = Some \<lparr>rb_required = False,
        rb_content = Some [(''application/json'',
          \<lparr>c_schema = JObj [(''type'', JStr ''object'')],
           c_examples = Some [(''exA'', JObj [(''id'', JNum 1)])]\<rparr>)]\<rparr>"
    by (simp add: order_path_def)
  have 6: "\<not> opt_truthy None \<and> \<not> truthy JUndefined" by (simp add: opt_truthy_def)
  have a: "findPreferredExampleByRequest sample_externals order_path ''/orders'' (Some ''{\"id\"'') JUndefined None
       = Inl (SyntaxError ''{\"id\"'')"
    using 1 2 malformed_json_propagates [of sample_externals order_path "''/orders''" "[]" "Some ''{\"id\"''"
        JUndefined None m2 m3 raw decl content m]
    by simp
  have b: "findPreferredExampleByRequest sample_externals order_path ''/orders'' (Some ''{\"id\":\"1\"}'') (JStr ''{\"id\"'') None
       = Inl (SyntaxError ''{\"id\"'')"
    using 1 2 3 4 5 malformed_json_propagates [of sample_externals order_path "''/orders''" "[]"
        "Some ''{\"id\":\"1\"}''" "JStr ''{\"id\"''" None "[(''exA'', Count 1)]" "[(''exA'', Count 1)]" "''{\"id\"''"
        "\<lparr>rb_required = False,
        rb_content = Some [(''application/json'',
          \<lparr>c_schema = JObj [(''type'', JStr ''object'')],
           c_examples = Some [(''exA'', JObj [(''id'', JNum 1)])]\<rparr>)]\<rparr>"
        "[(''application/json'',
          \<lparr>c_schema = JObj [(''type'', JStr ''object'')],
           c_examples = Some [(''exA'', JObj [(''id'', JNum 1)])]\<rparr>)]" m]
    by simp
  have c: "match_query sample_externals order_path None [] = Inr []
     \<and> match_body sample_externals order_path JUndefined [] = Inr []"
    using 6 malformed_json_propagates [of sample_externals order_path "''/orders''" "[]" None
        JUndefined None m2 m3 raw decl content "[]"]
    by simp
  from 1 2 3 4 a b c show ?thesis by blast
qed


text \<open>The raw query \<^verbatim>\<open>{\<close> on the operation with the single query parameter \<^verbatim>\<open>id\<close>.\<close>

theorem malformed_query_counterexample:
  "findPreferredExampleByRequest sample_externals id_path ''/things'' (Some ''{'') JUndefined None
     = Inl (SyntaxError ''{'')"
  by code_simp

end
